theory Spec2Isabelle
  imports Complex_Main "HOL-Library.Sublist"
begin

section \<open>Data model of the video summarizer\<close>

text \<open>
  The embedding follows \<^verbatim>\<open>src/rag_pipeline/video_summarizer.py\<close>, class
  \<^verbatim>\<open>VideoSummarizer\<close>. Python floats (durations, times) are modelled by exact
  reals, Python strings by \<^typ>\<open>string\<close> with one \<^typ>\<open>char\<close> per character, so
  \<^const>\<open>length\<close> is Python's \<^verbatim>\<open>len\<close>. An exception is a value: \<open>Inl\<close> of a sum.
\<close>

datatype error =
  FileNotFoundError string
  | ZeroDivisionError
  | JSONDecodeError
  | Exception string

text \<open>\<^verbatim>\<open>str(e)\<close> of a raised exception (the messages of the two built-in errors are Python's).\<close>

fun str_of :: "error \<Rightarrow> string" where
  "str_of (FileNotFoundError m) = m"
| "str_of ZeroDivisionError = ''float division by zero''"
| "str_of JSONDecodeError = ''Expecting value''"
| "str_of (Exception m) = m"

text \<open>The two configuration attributes set by \<^verbatim>\<open>__init__\<close>.\<close>

record VideoSummarizer =
  chunk_duration :: real
  max_summary_chars :: int

definition init :: VideoSummarizer where
  "init = \<lparr>chunk_duration = 30, max_summary_chars = 1500\<rparr>"

type_synonym frame = "nat list"

text \<open>
  A moviepy clip (\<^verbatim>\<open>VideoFileClip\<close> or a sub-clip of one): its duration, frame rate,
  frame size and \<^verbatim>\<open>get_frame(t)\<close>, which returns a frame or raises with a message.
\<close>

record clip =
  clip_duration :: real
  clip_fps :: real
  clip_size :: "nat \<times> nat"
  get_frame :: "real \<Rightarrow> error + frame"

text \<open>\<^verbatim>\<open>video.subclip(start_time, end_time)\<close>: times of the sub-clip are relative to its start.\<close>

definition subclip :: "clip \<Rightarrow> real \<Rightarrow> real \<Rightarrow> clip" where
  "subclip video t_start t_end =
     video\<lparr>clip_duration := t_end - t_start, get_frame := (\<lambda>t. get_frame video (t_start + t))\<rparr>"

record video_info =
  vi_path :: string
  vi_duration :: real
  vi_fps :: real
  vi_size :: "nat \<times> nat"
  vi_filename :: string

record chunk_info =
  chunk_number :: nat
  start_time :: real
  end_time :: real
  duration :: real
  timestamp :: string

text \<open>An entry of \<^verbatim>\<open>video_summary['chunks']\<close>: the chunk's info and its summary.\<close>

record chunk_data = chunk_info +
  summary :: string
  summary_length :: nat

record video_summary =
  video_name :: string
  video_path :: string
  total_duration :: real
  fps :: real
  size_wh :: "nat \<times> nat"
  processing_date :: string
  total_chunks :: nat
  s_chunk_duration :: real
  chunks :: "chunk_data list"

section \<open>Strings and paths\<close>

text \<open>Python's \<^verbatim>\<open>needle in haystack\<close> on strings, by scanning the start positions.\<close>

fun str_contains :: "string \<Rightarrow> string \<Rightarrow> bool" where
  "str_contains needle [] = (needle = [])"
| "str_contains needle (c # cs) = (prefix needle (c # cs) \<or> str_contains needle cs)"

text \<open>A slice \<^verbatim>\<open>s[:k]\<close>: a negative \<open>k\<close> counts from the end.\<close>

definition slice_to :: "string \<Rightarrow> int \<Rightarrow> string" where
  "slice_to s k = (if 0 \<le> k then take (nat k) s else take (nat (int (length s) + k)) s)"

text \<open>Decimal digits of a natural number, and the format \<^verbatim>\<open>{n:02d}\<close>.\<close>

fun digits :: "nat \<Rightarrow> string" where
  "digits n = (if n < 10 then [''0123456789'' ! n]
               else digits (n div 10) @ [''0123456789'' ! (n mod 10)])"

declare digits.simps [simp del]

definition fmt02d :: "int \<Rightarrow> string" where
  "fmt02d n = (if n < 0 then CHR ''-'' # digits (nat (- n))
               else if n < 10 then CHR ''0'' # digits (nat n)
               else digits (nat n))"

text \<open>
  \<^verbatim>\<open>f"{int(t//60):02d}:{int(t%60):02d}"\<close>. Python's \<^verbatim>\<open>%\<close> takes the sign of the
  divisor, so \<open>t % 60\<close> is \<open>t - 60 * \<lfloor>t / 60\<rfloor>\<close>, and \<^verbatim>\<open>int\<close> truncates towards zero.
\<close>

definition int_trunc :: "real \<Rightarrow> int" where
  "int_trunc x = (if 0 \<le> x then \<lfloor>x\<rfloor> else \<lceil>x\<rceil>)"

definition mm_ss :: "real \<Rightarrow> string" where
  "mm_ss t = fmt02d (int_trunc (of_int \<lfloor>t / 60\<rfloor>)) @ '':''
           @ fmt02d (int_trunc (t - 60 * of_int \<lfloor>t / 60\<rfloor>))"

text \<open>
  \<^verbatim>\<open>os.path.basename\<close>, the root of \<^verbatim>\<open>os.path.splitext\<close> and \<^verbatim>\<open>os.path.join\<close>, as
  posixpath computes them. The extension starts at the last dot of the last path
  component, unless only dots (or nothing) come before it in that component.
\<close>

definition basename :: "string \<Rightarrow> string" where
  "basename p = rev (takeWhile (\<lambda>c. c \<noteq> CHR ''/'') (rev p))"

definition splitext_root :: "string \<Rightarrow> string" where
  "splitext_root p =
     (let b = basename p;
          ext = takeWhile (\<lambda>c. c \<noteq> CHR ''.'') (rev b);
          stem = take (length b - length ext - 1) b
      in if CHR ''.'' \<in> set b \<and> list_ex (\<lambda>c. c \<noteq> CHR ''.'') stem
         then take (length p - length ext - 1) p
         else p)"

definition path_join :: "string \<Rightarrow> string \<Rightarrow> string" where
  "path_join a b =
     (if prefix ''/'' b then b
      else if a = [] \<or> suffix ''/'' a then a @ b
      else a @ ''/'' @ b)"

section \<open>Function 2: segmenting the video\<close>

text \<open>
  \<^verbatim>\<open>int(np.ceil(duration / self.chunk_duration))\<close> chunks; \<^verbatim>\<open>range\<close> of a number
  that is not positive is empty. Dividing by a zero chunk duration raises.
\<close>

definition chunk_count :: "VideoSummarizer \<Rightarrow> real \<Rightarrow> nat" where
  "chunk_count self d = nat \<lceil>d / chunk_duration self\<rceil>"

definition make_chunk_info :: "VideoSummarizer \<Rightarrow> real \<Rightarrow> nat \<Rightarrow> chunk_info" where
  "make_chunk_info self d i =
     (let start = of_nat i * chunk_duration self;
          stop = min (of_nat (i + 1) * chunk_duration self) d
      in \<lparr>chunk_number = i + 1, start_time = start, end_time = stop,
          duration = stop - start, timestamp = mm_ss start @ '' - '' @ mm_ss stop\<rparr>)"

definition segment_video ::
    "VideoSummarizer \<Rightarrow> clip \<Rightarrow> video_info \<Rightarrow> error + (clip \<times> chunk_info) list" where
  "segment_video self video vinfo =
     (if chunk_duration self = 0 then Inl ZeroDivisionError
      else Inr (map (\<lambda>i. let ci = make_chunk_info self (vi_duration vinfo) i
                          in (subclip video (start_time ci) (end_time ci), ci))
                    [0 ..< chunk_count self (vi_duration vinfo)]))"

section \<open>The world outside: media, remote service, files, clock, terminal\<close>

text \<open>
  A file of the working directory holds either text that \<^verbatim>\<open>json.load\<close> rejects or the
  JSON of a summary, which \<^verbatim>\<open>json.load\<close> gives back as written by \<^verbatim>\<open>json.dump\<close>.
\<close>

datatype file_content = Unparseable | Json video_summary

text \<open>
  What a request to the model is made of: the values the prompt template is filled with
  and the base64 images that follow the prompt.
\<close>

record content =
  prompt_chunk_duration :: real
  prompt_timestamp :: string
  prompt_duration :: real
  prompt_max_chars :: int
  images :: "string list"

text \<open>
  The collaborators the code calls. \<open>media p\<close> is \<open>None\<close> when no file is at \<open>p\<close>, and else
  what \<^verbatim>\<open>VideoFileClip(p)\<close> does. \<open>generate_content k c\<close> is what
  \<^verbatim>\<open>self.model.generate_content(c).text\<close> does at the \<open>k\<close>-th request (counted from 0) of
  the run: it raises or returns the response text. \<open>user_input\<close> is
  \<^verbatim>\<open>input(...).lower().strip()\<close>, \<open>now\<close> is \<^verbatim>\<open>datetime.now().isoformat()\<close>.
\<close>

record env =
  media :: "string \<Rightarrow> (error + clip) option"
  encode_frame :: "frame \<Rightarrow> error + string"
  generate_content :: "nat \<Rightarrow> content \<Rightarrow> error + string"
  user_input :: string
  now :: string

text \<open>
  The state a run changes: the files (paths as written, relative to the working
  directory), the directories made, the chunk numbers of the lines
  \<^verbatim>\<open>Summarizing chunk n...\<close> that \<^verbatim>\<open>summarize_chunk\<close> prints when it is entered,
  the chunk numbers of the requests sent to the model, the arguments of
  \<^verbatim>\<open>time.sleep\<close>, and the paths given to \<^verbatim>\<open>VideoFileClip\<close>, each in order.
\<close>

record world =
  files :: "string \<Rightarrow> file_content option"
  dirs :: "string set"
  summarized :: "nat list"
  calls :: "nat list"
  sleeps :: "nat list"
  opened :: "string list"

definition sleep :: "nat \<Rightarrow> world \<Rightarrow> world" where
  "sleep n w = w\<lparr>sleeps := sleeps w @ [n]\<rparr>"

section \<open>Function 1: ingesting the video\<close>

definition ingest_video :: "env \<Rightarrow> world \<Rightarrow> string \<Rightarrow> (error + clip \<times> video_info) \<times> world" where
  "ingest_video e w path =
     (case media e path of
        None \<Rightarrow> (Inl (FileNotFoundError (''Video file not found: '' @ path)), w)
      | Some r \<Rightarrow>
          (let w' = w\<lparr>opened := opened w @ [path]\<rparr> in
           case r of
             Inl err \<Rightarrow> (Inl (Exception (''Error loading video: '' @ str_of err)), w')
           | Inr video \<Rightarrow>
               (Inr (video, \<lparr>vi_path = path, vi_duration = clip_duration video,
                             vi_fps = clip_fps video, vi_size = clip_size video,
                             vi_filename = basename path\<rparr>), w')))"

section \<open>Sampling frames\<close>

definition frame_times :: "real \<Rightarrow> real list" where
  "frame_times d = (if d > 1 / 10 then [0, d / 2, d - 1 / 10] else [0])"

text \<open>The loop over \<^verbatim>\<open>frame_times\<close>: a time that is not before the end is skipped.\<close>

fun extract_loop :: "clip \<Rightarrow> real list \<Rightarrow> frame list \<Rightarrow> error + frame list" where
  "extract_loop chunk [] frames = Inr frames"
| "extract_loop chunk (t # ts) frames =
     (if t < clip_duration chunk
      then (case get_frame chunk t of
              Inl err \<Rightarrow> Inl err
            | Inr f \<Rightarrow> extract_loop chunk ts (frames @ [f]))
      else extract_loop chunk ts frames)"

definition extract_frames_and_audio :: "clip \<Rightarrow> error + frame list" where
  "extract_frames_and_audio chunk = extract_loop chunk (frame_times (clip_duration chunk)) []"

fun frames_to_base64 :: "env \<Rightarrow> frame list \<Rightarrow> error + string list" where
  "frames_to_base64 e [] = Inr []"
| "frames_to_base64 e (f # fs) =
     (case encode_frame e f of
        Inl err \<Rightarrow> Inl err
      | Inr b \<Rightarrow> (case frames_to_base64 e fs of Inl err \<Rightarrow> Inl err | Inr bs \<Rightarrow> Inr (b # bs)))"

section \<open>Function 3: summarizing a chunk\<close>

text \<open>\<^verbatim>\<open>f"Error processing chunk: {str(e)}"\<close>\<close>

definition error_summary :: "error \<Rightarrow> string" where
  "error_summary err = ''Error processing chunk: '' @ str_of err"

definition truncate :: "VideoSummarizer \<Rightarrow> string \<Rightarrow> string" where
  "truncate self s =
     (if int (length s) > max_summary_chars self
      then slice_to s (max_summary_chars self - 3) @ ''...''
      else s)"

text \<open>
  The body of \<^verbatim>\<open>summarize_chunk\<close> is one \<^verbatim>\<open>try\<close> whose handler catches every
  \<^verbatim>\<open>Exception\<close> and returns the error text; the result is a sum because the callers
  wrap the call in a \<^verbatim>\<open>try\<close> of their own.
\<close>

definition make_content :: "VideoSummarizer \<Rightarrow> chunk_info \<Rightarrow> string list \<Rightarrow> content" where
  "make_content self ci b64 =
     \<lparr>prompt_chunk_duration = chunk_duration self, prompt_timestamp = timestamp ci,
      prompt_duration = duration ci, prompt_max_chars = max_summary_chars self, images = b64\<rparr>"

definition summarize_chunk ::
    "VideoSummarizer \<Rightarrow> env \<Rightarrow> world \<Rightarrow> clip \<Rightarrow> chunk_info \<Rightarrow> (error + string) \<times> world" where
  "summarize_chunk self e w chunk ci =
     (let w0 = w\<lparr>summarized := summarized w @ [chunk_number ci]\<rparr> in
      case extract_frames_and_audio chunk of
        Inl err \<Rightarrow> (Inr (error_summary err), w0)
      | Inr frames \<Rightarrow>
          (case frames_to_base64 e frames of
             Inl err \<Rightarrow> (Inr (error_summary err), w0)
           | Inr b64 \<Rightarrow>
               (let w1 = w0\<lparr>calls := calls w0 @ [chunk_number ci]\<rparr>
                in case generate_content e (length (calls w0)) (make_content self ci b64) of
                     Inl err \<Rightarrow> (Inr (error_summary err), w1)
                   | Inr response \<Rightarrow> (Inr (truncate self response), w1))))"

section \<open>Function 4: the summary and its file\<close>

definition chunk_entry :: "chunk_info \<Rightarrow> string \<Rightarrow> chunk_data" where
  "chunk_entry ci s =
     \<lparr>chunk_number = chunk_number ci, start_time = start_time ci, end_time = end_time ci,
      duration = duration ci, timestamp = timestamp ci,
      summary = s, summary_length = length s\<rparr>"

definition create_video_summary_json ::
    "VideoSummarizer \<Rightarrow> env \<Rightarrow> video_info \<Rightarrow> (chunk_info \<times> string) list \<Rightarrow> video_summary" where
  "create_video_summary_json self e vinfo chunk_summaries =
     \<lparr>video_name = vi_filename vinfo, video_path = vi_path vinfo,
      total_duration = vi_duration vinfo, fps = vi_fps vinfo, size_wh = vi_size vinfo,
      processing_date = now e, total_chunks = length chunk_summaries,
      s_chunk_duration = chunk_duration self,
      chunks = map (\<lambda>(ci, s). chunk_entry ci s) chunk_summaries\<rparr>"

text \<open>The path \<^verbatim>\<open>save_summary_json\<close> writes when it is given none.\<close>

definition default_output_path :: "video_summary \<Rightarrow> string" where
  "default_output_path vs = path_join ''output'' (splitext_root (video_name vs) @ ''_summary.json'')"

definition save_summary_json :: "world \<Rightarrow> video_summary \<Rightarrow> string option \<Rightarrow> string \<times> world" where
  "save_summary_json w vs output_path =
     (let p = (case output_path of None \<Rightarrow> default_output_path vs | Some q \<Rightarrow> q)
      in (p, w\<lparr>dirs := insert ''output'' (dirs w), files := (files w)(p \<mapsto> Json vs)\<rparr>))"

text \<open>The file name \<^verbatim>\<open>check_existing_summary\<close> looks for.\<close>

definition summary_filename :: "string \<Rightarrow> string" where
  "summary_filename path = splitext_root (basename path) @ ''_summary.json''"

definition check_existing_summary :: "world \<Rightarrow> string \<Rightarrow> (video_summary \<times> string) option" where
  "check_existing_summary w path =
     (case files w (summary_filename path) of
        None \<Rightarrow> None
      | Some Unparseable \<Rightarrow> None
      | Some (Json existing) \<Rightarrow> Some (existing, summary_filename path))"

section \<open>Resuming a run\<close>

text \<open>
  The loop that collects the numbers of the failed chunks, as
  \<^verbatim>\<open>resume_failed_processing\<close> writes it.
\<close>

fun resume_failed_chunks :: "chunk_data list \<Rightarrow> nat list \<Rightarrow> nat list" where
  "resume_failed_chunks [] failed = failed"
| "resume_failed_chunks (chunk # rest) failed =
     (if str_contains ''Error processing chunk'' (summary chunk)
      then resume_failed_chunks rest (failed @ [chunk_number chunk])
      else resume_failed_chunks rest failed)"

text \<open>
  The \<^verbatim>\<open>enumerate\<close> loop that stores a new summary: the first entry with the chunk's
  number gets the summary and its length, and the loop breaks.
\<close>

fun update_chunk :: "nat \<Rightarrow> string \<Rightarrow> chunk_data list \<Rightarrow> chunk_data list" where
  "update_chunk n s [] = []"
| "update_chunk n s (existing_chunk # rest) =
     (if chunk_number existing_chunk = n
      then existing_chunk\<lparr>summary := s, summary_length := length s\<rparr> # rest
      else existing_chunk # update_chunk n s rest)"

text \<open>The loop over the chunks of the segmented video; \<open>entries\<close> is \<^verbatim>\<open>existing_summary['chunks']\<close>.\<close>

fun resume_loop ::
    "VideoSummarizer \<Rightarrow> env \<Rightarrow> nat list \<Rightarrow> (clip \<times> chunk_info) list \<Rightarrow> chunk_data list \<Rightarrow> world
      \<Rightarrow> chunk_data list \<times> world" where
  "resume_loop self e failed [] entries w = (entries, w)"
| "resume_loop self e failed ((chunk, ci) # rest) entries w =
     (if chunk_number ci \<in> set failed
      then (case summarize_chunk self e (sleep 3 w) chunk ci of
              (Inr s, w1) \<Rightarrow>
                resume_loop self e failed rest (update_chunk (chunk_number ci) s entries) w1
            | (Inl err, w1) \<Rightarrow>
                if str_contains ''429'' (str_of err)
                then (case summarize_chunk self e (sleep 60 w1) chunk ci of
                        (Inr s, w2) \<Rightarrow>
                          resume_loop self e failed rest (update_chunk (chunk_number ci) s entries) w2
                      | (Inl retry_error, w2) \<Rightarrow> resume_loop self e failed rest entries w2)
                else resume_loop self e failed rest entries w1)
      else resume_loop self e failed rest entries w)"

definition resume_failed_processing ::
    "VideoSummarizer \<Rightarrow> env \<Rightarrow> world \<Rightarrow> string \<Rightarrow> string
      \<Rightarrow> (error + video_summary \<times> string) \<times> world" where
  "resume_failed_processing self e w path existing_summary_path =
     (case files w existing_summary_path of
        None \<Rightarrow> (Inl (FileNotFoundError existing_summary_path), w)
      | Some Unparseable \<Rightarrow> (Inl JSONDecodeError, w)
      | Some (Json existing_summary) \<Rightarrow>
          (let failed_chunks = resume_failed_chunks (chunks existing_summary) [] in
           if failed_chunks = [] then (Inr (existing_summary, existing_summary_path), w)
           else (case ingest_video e w path of
                   (Inl err, w1) \<Rightarrow> (Inl err, w1)
                 | (Inr (video, vinfo), w1) \<Rightarrow>
                     (case segment_video self video vinfo of
                        Inl err \<Rightarrow> (Inl err, w1)
                      | Inr chs \<Rightarrow>
                          (let (entries, w2) =
                                 resume_loop self e failed_chunks chs (chunks existing_summary) w1;
                               updated = existing_summary\<lparr>chunks := entries, processing_date := now e\<rparr>;
                               (output_file, w3) = save_summary_json w2 updated (Some existing_summary_path)
                           in (Inr (updated, output_file), w3))))))"

section \<open>The main function\<close>

text \<open>The same loop over the chunks of the summary found, as \<^verbatim>\<open>process_video\<close> writes it.\<close>

fun process_failed_chunks :: "chunk_data list \<Rightarrow> nat list \<Rightarrow> nat list" where
  "process_failed_chunks [] failed = failed"
| "process_failed_chunks (chunk # rest) failed =
     (if str_contains ''Error processing chunk'' (summary chunk)
      then process_failed_chunks rest (failed @ [chunk_number chunk])
      else process_failed_chunks rest failed)"

text \<open>The answers \<^verbatim>\<open>'y'\<close>, \<^verbatim>\<open>'yes'\<close> and the empty one accept.\<close>

definition accepts :: "string \<Rightarrow> bool" where
  "accepts choice = (choice = ''y'' \<or> choice = ''yes'' \<or> choice = [])"

text \<open>The delay after the summary of the chunk at position \<open>i\<close> (from 0).\<close>

definition pacing :: "nat \<Rightarrow> nat" where
  "pacing i = (if i < 10 then 2 else if i < 20 then 4 else 6)"

text \<open>Step 3, the loop over \<^verbatim>\<open>enumerate(chunks)\<close>.\<close>

fun summarize_all ::
    "VideoSummarizer \<Rightarrow> env \<Rightarrow> nat \<Rightarrow> (clip \<times> chunk_info) list \<Rightarrow> (chunk_info \<times> string) list
      \<Rightarrow> world \<Rightarrow> (chunk_info \<times> string) list \<times> world" where
  "summarize_all self e i [] chunk_summaries w = (chunk_summaries, w)"
| "summarize_all self e i ((chunk, ci) # rest) chunk_summaries w =
     (case summarize_chunk self e w chunk ci of
        (Inr s, w1) \<Rightarrow>
          summarize_all self e (i + 1) rest (chunk_summaries @ [(ci, s)]) (sleep (pacing i) w1)
      | (Inl err, w1) \<Rightarrow>
          if str_contains ''429'' (str_of err)
          then (case summarize_chunk self e (sleep 60 w1) chunk ci of
                  (Inr s, w2) \<Rightarrow> summarize_all self e (i + 1) rest (chunk_summaries @ [(ci, s)]) w2
                | (Inl retry_error, w2) \<Rightarrow>
                    summarize_all self e (i + 1) rest
                      (chunk_summaries @ [(ci, error_summary retry_error)]) w2)
          else summarize_all self e (i + 1) rest (chunk_summaries @ [(ci, error_summary err)]) w1)"

text \<open>Steps 1 to 4 of \<^verbatim>\<open>process_video\<close>, the part under its \<^verbatim>\<open>try\<close>.\<close>

definition full_processing ::
    "VideoSummarizer \<Rightarrow> env \<Rightarrow> world \<Rightarrow> string \<Rightarrow> string option
      \<Rightarrow> (error + video_summary \<times> string) \<times> world" where
  "full_processing self e w path output_path =
     (case ingest_video e w path of
        (Inl err, w1) \<Rightarrow> (Inl err, w1)
      | (Inr (video, vinfo), w1) \<Rightarrow>
          (case segment_video self video vinfo of
             Inl err \<Rightarrow> (Inl err, w1)
           | Inr chs \<Rightarrow>
               (let (chunk_summaries, w2) = summarize_all self e 0 chs [] w1;
                    vs = create_video_summary_json self e vinfo chunk_summaries;
                    (output_file, w3) = save_summary_json w2 vs output_path
                in (Inr (vs, output_file), w3))))"

definition process_video ::
    "VideoSummarizer \<Rightarrow> env \<Rightarrow> world \<Rightarrow> string \<Rightarrow> string option \<Rightarrow> bool
      \<Rightarrow> (error + video_summary \<times> string) \<times> world" where
  "process_video self e w path output_path force_reprocess =
     (if \<not> force_reprocess
      then (case check_existing_summary w path of
              None \<Rightarrow> full_processing self e w path output_path
            | Some (existing_summary, existing_path) \<Rightarrow>
                (let failed_chunks = process_failed_chunks (chunks existing_summary) [] in
                 if failed_chunks \<noteq> []
                 then (if accepts (user_input e)
                       then resume_failed_processing self e w path existing_path
                       else full_processing self e w path output_path)
                 else (if accepts (user_input e)
                       then (Inr (existing_summary, existing_path), w)
                       else full_processing self e w path output_path)))
      else full_processing self e w path output_path)"

section \<open>What an update leaves alone\<close>


section \<open>Concrete inputs\<close>

text \<open>A clip of a given duration whose every frame decodes, and the info of that video.\<close>

definition demo_clip :: "real \<Rightarrow> clip" where
  "demo_clip d = \<lparr>clip_duration = d, clip_fps = 30, clip_size = (640, 480), get_frame = (\<lambda>t. Inr [])\<rparr>"

definition demo_info :: "real \<Rightarrow> video_info" where
  "demo_info d = \<lparr>vi_path = ''video.mp4'', vi_duration = d, vi_fps = 30, vi_size = (640, 480),
                  vi_filename = ''video.mp4''\<rparr>"

definition demo_entry :: "nat \<Rightarrow> string \<Rightarrow> chunk_data" where
  "demo_entry n s = chunk_entry (make_chunk_info init 150 (n - 1)) s"

definition demo_env :: "real \<Rightarrow> (nat \<Rightarrow> error + string) \<Rightarrow> string \<Rightarrow> env" where
  "demo_env d service answer =
     \<lparr>media = (\<lambda>p. if p = ''video.mp4'' then Some (Inr (demo_clip d)) else None),
      encode_frame = (\<lambda>f. Inr ''/9j/4AAQ''),
      generate_content = (\<lambda>k c. service k),
      user_input = answer,
      now = ''2025-01-01T00:00:00''\<rparr>"

definition empty_world :: world where
  "empty_world = \<lparr>files = Map.empty, dirs = {}, summarized = [], calls = [], sleeps = [], opened = []\<rparr>"

text \<open>
  A summary of the 150 second video as a run of \<^const>\<open>init\<close> leaves it, with the given
  summary texts for its chunks 1 to 5, and a world whose only file is that summary
  under the name \<^verbatim>\<open>video_summary.json\<close>.
\<close>

definition demo_existing :: "string list \<Rightarrow> video_summary" where
  "demo_existing texts =
     create_video_summary_json init (demo_env 150 (\<lambda>k. Inr []) ''y'') (demo_info 150)
       (zip (map (make_chunk_info init 150) [0 ..< 5]) texts)"

definition world_with :: "video_summary \<Rightarrow> world" where
  "world_with vs = empty_world\<lparr>files := [''video_summary.json'' \<mapsto> Json vs]\<rparr>"

text \<open>Five summary texts: those of chunks 2 and 5 carry the failure marker.\<close>

definition demo_texts :: "string list" where
  "demo_texts =
     [''A man walks his dog along a quiet beach.'',
      ''Error processing chunk: 429 Resource exhausted'',
      ''Two children build a castle of sand.'',
      ''The dog runs into the water.'',
      ''Error processing chunk: timeout'']"

definition clean_texts :: "string list" where
  "clean_texts =
     [''A man walks his dog along a quiet beach.'',
      ''A woman reads under a parasol.'',
      ''Two children build a castle of sand.'',
      ''The dog runs into the water.'',
      ''The sun sets behind the dunes.'']"

section \<open>Properties of the segmenter\<close>






lemma make_chunk_info_sel [simp]:
  "chunk_number (make_chunk_info self d i) = i + 1"
  "start_time (make_chunk_info self d i) = of_nat i * chunk_duration self"
  "duration (make_chunk_info self d i) = end_time (make_chunk_info self d i) - start_time (make_chunk_info self d i)"
  by (simp_all add: make_chunk_info_def Let_def)









lemma segment_video_example:
  "map_sum id (map (\<lambda>c. (chunk_number (snd c), start_time (snd c), end_time (snd c), duration (snd c), timestamp (snd c))))
     (segment_video init (demo_clip 65) (demo_info 65))
   = Inr [(1, 0, 30, 30, ''00:00 - 00:30''), (2, 30, 60, 30, ''00:30 - 01:00''), (3, 60, 65, 5, ''01:00 - 01:05'')]"
  by code_simp

section \<open>Failed chunks\<close>

lemma str_contains_sublist: "str_contains needle hay = sublist needle hay"
  by (induction hay) (simp_all add: sublist_Cons_right)

lemma str_contains_iff: "str_contains needle hay \<longleftrightarrow> (\<exists>p q. hay = p @ needle @ q)"
  by (simp add: str_contains_sublist sublist_def)

lemma resume_failed_chunks_acc:
  "resume_failed_chunks cs acc
   = acc @ map chunk_number (filter (\<lambda>c. str_contains ''Error processing chunk'' (summary c)) cs)"
  by (induction cs arbitrary: acc) simp_all

lemma process_failed_chunks_acc:
  "process_failed_chunks cs acc
   = acc @ map chunk_number (filter (\<lambda>c. str_contains ''Error processing chunk'' (summary c)) cs)"
  by (induction cs arbitrary: acc) simp_all

text \<open>
  Claim C6. The numbers collected are those of the entries whose summary contains the
  text \<^verbatim>\<open>Error processing chunk\<close> somewhere, in the order of the entries; the loop of
  \<^verbatim>\<open>process_video\<close>, which decides whether the summary found is complete, and the
  loop of \<^verbatim>\<open>resume_failed_processing\<close>, which selects the chunks to redo, collect the
  same numbers. An entry with the summary \<^verbatim>\<open>Error processing chunk: timeout\<close> is
  collected, one with an ordinary sentence of 40 characters is not.
\<close>

theorem failed_chunks_by_marker:
  "resume_failed_chunks (chunks vs) []
     = map chunk_number (filter (\<lambda>c. \<exists>p q. summary c = p @ ''Error processing chunk'' @ q) (chunks vs))
   \<and> process_failed_chunks (chunks vs) [] = resume_failed_chunks (chunks vs) []
   \<and> resume_failed_chunks [demo_entry 1 ''Error processing chunk: timeout''] [] = [1]
   \<and> length ''A man walks his dog along a quiet beach.'' = 40
   \<and> resume_failed_chunks [demo_entry 1 ''A man walks his dog along a quiet beach.''] [] = []"
proof -
  have "resume_failed_chunks [demo_entry 1 ''Error processing chunk: timeout''] [] = [1]"
    by (simp add: demo_entry_def chunk_entry_def make_chunk_info_def Let_def)
  moreover have "resume_failed_chunks [demo_entry 1 ''A man walks his dog along a quiet beach.''] [] = []"
    by (simp add: demo_entry_def chunk_entry_def make_chunk_info_def Let_def)
  ultimately show ?thesis
    by (simp add: resume_failed_chunks_acc process_failed_chunks_acc str_contains_iff)
qed

section \<open>Truncation of the response\<close>

lemma truncate_long:
  assumes "max_summary_chars self = 1500" "1500 < length response"
  shows "truncate self response = take 1497 response @ ''...''" "length (truncate self response) = 1500"
  using assms by (simp_all add: truncate_def slice_to_def)

lemma truncate_short:
  assumes "max_summary_chars self = 1500" "length response \<le> 1500"
  shows "truncate self response = response"
  using assms by (simp add: truncate_def)

text \<open>
  Claim C7, amended. With the cap of 1500 characters, when the frames are sampled and
  encoded and the model answers, \<^verbatim>\<open>summarize_chunk\<close> sends that one request and
  returns: for a response of more than 1500 characters its first 1497 characters followed
  by three dots, 1500 characters in all, so that nothing after the first 1497 characters
  of the response enters the summary; and a response of at most 1500 characters unchanged.
\<close>

theorem summarize_chunk_truncates:
  assumes "max_summary_chars self = 1500"
      and "extract_frames_and_audio chunk = Inr frames"
      and "frames_to_base64 e frames = Inr b64"
      and "generate_content e (length (calls w)) (make_content self ci b64) = Inr response"
  shows "\<exists>s. summarize_chunk self e w chunk ci
               = (Inr s, w\<lparr>summarized := summarized w @ [chunk_number ci],
                             calls := calls w @ [chunk_number ci]\<rparr>)
          \<and> (1500 < length response \<longrightarrow> s = take 1497 response @ ''...'' \<and> length s = 1500)
          \<and> (length response \<le> 1500 \<longrightarrow> s = response)"
proof -
  have "summarize_chunk self e w chunk ci
        = (Inr (truncate self response),
           w\<lparr>summarized := summarized w @ [chunk_number ci], calls := calls w @ [chunk_number ci]\<rparr>)"
    using assms(2-4) by (simp add: summarize_chunk_def Let_def)
  then show ?thesis
    using truncate_long [OF assms(1)] truncate_short [OF assms(1)] by auto
qed

lemma demo_frames:
  "extract_frames_and_audio (demo_clip 30) = Inr [[], [], []]"
  "frames_to_base64 (demo_env d service answer) [[], [], []] = Inr [''/9j/4AAQ'', ''/9j/4AAQ'', ''/9j/4AAQ'']"
  by (simp_all add: extract_frames_and_audio_def frame_times_def demo_clip_def demo_env_def)

text \<open>
  The theorem at a response of 1600 letters \<open>a\<close>.
\<close>

theorem summarize_chunk_truncates_witness:
  "max_summary_chars init = 1500
   \<and> extract_frames_and_audio (demo_clip 30) = Inr [[], [], []]
   \<and> frames_to_base64 (demo_env 30 (\<lambda>k. Inr (replicate 1600 CHR ''a'')) ''y'') [[], [], []]
       = Inr [''/9j/4AAQ'', ''/9j/4AAQ'', ''/9j/4AAQ'']
   \<and> generate_content (demo_env 30 (\<lambda>k. Inr (replicate 1600 CHR ''a'')) ''y'') (length (calls empty_world))
         (make_content init (make_chunk_info init 30 0) [''/9j/4AAQ'', ''/9j/4AAQ'', ''/9j/4AAQ''])
       = Inr (replicate 1600 CHR ''a'')
   \<and> fst (summarize_chunk init (demo_env 30 (\<lambda>k. Inr (replicate 1600 CHR ''a'')) ''y'') empty_world
              (demo_clip 30) (make_chunk_info init 30 0))
       = Inr (replicate 1497 CHR ''a'' @ ''...'')
   \<and> calls (snd (summarize_chunk init (demo_env 30 (\<lambda>k. Inr (replicate 1600 CHR ''a'')) ''y'') empty_world
              (demo_clip 30) (make_chunk_info init 30 0))) = [1]"
proof -
  let ?e = "demo_env 30 (\<lambda>k. Inr (replicate 1600 CHR ''a'')) ''y''"
  have h1: "max_summary_chars init = 1500" by (simp add: init_def)
  have h4: "generate_content ?e (length (calls empty_world))
         (make_content init (make_chunk_info init 30 0) [''/9j/4AAQ'', ''/9j/4AAQ'', ''/9j/4AAQ''])
       = Inr (replicate 1600 CHR ''a'')"
    by (simp add: demo_env_def)
  show ?thesis
    using summarize_chunk_truncates [OF h1 demo_frames(1) demo_frames(2) h4] h1 h4 demo_frames
    by (auto simp: empty_world_def)
qed

text \<open>
  Claim C7 as stated fails where it says that the stored summary does not contain the
  tail that was cut off: of a response of 1600 letters \<open>a\<close> the tail, 103 letters \<open>a\<close>,
  occurs in the summary stored, 1497 letters \<open>a\<close> and three dots.
\<close>

theorem truncated_summary_contains_tail:
  "1500 < length (replicate 1600 CHR ''a'')
   \<and> fst (summarize_chunk init (demo_env 30 (\<lambda>k. Inr (replicate 1600 CHR ''a'')) ''y'') empty_world
              (demo_clip 30) (make_chunk_info init 30 0))
       = Inr (replicate 1497 CHR ''a'' @ ''...'')
   \<and> str_contains (drop 1497 (replicate 1600 CHR ''a'')) (replicate 1497 CHR ''a'' @ ''...'')"
proof -
  let ?e = "demo_env 30 (\<lambda>k. Inr (replicate 1600 CHR ''a'')) ''y''"
  have "summarize_chunk init ?e empty_world (demo_clip 30) (make_chunk_info init 30 0)
        = (Inr (truncate init (replicate 1600 CHR ''a'')),
           empty_world\<lparr>summarized := summarized empty_world @ [chunk_number (make_chunk_info init 30 0)],
                        calls := calls empty_world @ [chunk_number (make_chunk_info init 30 0)]\<rparr>)"
    by (simp add: summarize_chunk_def Let_def demo_frames) (simp add: demo_env_def)
  moreover have "truncate init (replicate 1600 CHR ''a'') = replicate 1497 CHR ''a'' @ ''...''"
    by (simp add: truncate_def slice_to_def init_def)
  moreover have "replicate 1497 CHR ''a'' = replicate 103 CHR ''a'' @ replicate 1394 CHR ''a''"
    by (simp add: replicate_add [symmetric])
  then have "replicate 1497 CHR ''a'' @ ''...''
        = [] @ drop 1497 (replicate 1600 CHR ''a'') @ (replicate 1394 CHR ''a'' @ ''...'')"
    by simp
  then have "str_contains (drop 1497 (replicate 1600 CHR ''a'')) (replicate 1497 CHR ''a'' @ ''...'')"
    unfolding str_contains_iff by blast
  ultimately show ?thesis by simp
qed

section \<open>The length field of an entry\<close>

lemma update_chunk_set:
  "c \<in> set (update_chunk n s entries) \<Longrightarrow>
   c \<in> set entries \<or> (summary c = s \<and> summary_length c = length s)"
  by (induction entries) (auto split: if_splits)

lemma update_chunk_lengths:
  "\<forall>c \<in> set entries. summary_length c = length (summary c) \<Longrightarrow>
   \<forall>c \<in> set (update_chunk n s entries). summary_length c = length (summary c)"
  using update_chunk_set by blast

lemma summarize_chunk_returns:
  "\<exists>s w'. summarize_chunk self e w chunk ci = (Inr s, w')"
  by (simp add: summarize_chunk_def Let_def split: sum.splits)

lemma resume_loop_lengths:
  "\<forall>c \<in> set entries. summary_length c = length (summary c) \<Longrightarrow>
   \<forall>c \<in> set (fst (resume_loop self e failed chs entries w)). summary_length c = length (summary c)"
proof (induction chs arbitrary: entries w)
  case Nil
  then show ?case by simp
next
  case (Cons x chs)
  obtain chunk ci where x: "x = (chunk, ci)" by (cases x)
  obtain s w1 where s: "summarize_chunk self e (sleep 3 w) chunk ci = (Inr s, w1)"
    using summarize_chunk_returns by blast
  show ?case
  proof (cases "chunk_number ci \<in> set failed")
    case True
    then show ?thesis
      using Cons.IH [OF update_chunk_lengths [OF Cons.prems]] by (simp add: x s)
  next
    case False
    then show ?thesis using Cons.IH [OF Cons.prems] by (simp add: x)
  qed
qed

lemma create_lengths:
  "\<forall>c \<in> set (chunks (create_video_summary_json self e vinfo pairs)). summary_length c = length (summary c)"
  by (auto simp: create_video_summary_json_def chunk_entry_def)

lemma full_processing_summary:
  "full_processing self e w path out = (Inr r, w') \<Longrightarrow>
   \<exists>vinfo pairs. fst r = create_video_summary_json self e vinfo pairs"
  by (auto simp: full_processing_def Let_def split: prod.splits sum.splits) blast

lemma resume_failed_processing_chunks:
  assumes "files w p = Some (Json existing)"
      and "resume_failed_processing self e w path p = (Inr r, w')"
  shows "chunks (fst r) = chunks existing
       \<or> (\<exists>failed chs w1. chunks (fst r) = fst (resume_loop self e failed chs (chunks existing) w1))"
  using assms
  by (auto simp: resume_failed_processing_def Let_def save_summary_json_def
           split: prod.splits sum.splits if_splits) (metis fst_conv)

text \<open>
  Claim C10. In the summary that \<^verbatim>\<open>create_video_summary_json\<close> assembles, and so in
  the one a full run returns, \<open>summary_length\<close> of every entry is the length of its
  \<open>summary\<close>. An update of a chunk leaves every entry as it was or gives it the new
  summary together with its length, so the loop of a resume run, and the resume run as a
  whole, keep the property for a loaded summary that has it.
\<close>

theorem summary_length_is_length:
  "(\<forall>c \<in> set (chunks (create_video_summary_json self e vinfo pairs)).
       summary_length c = length (summary c))
   \<and> (\<forall>r w'. full_processing self e w path out = (Inr r, w') \<longrightarrow>
         (\<forall>c \<in> set (chunks (fst r)). summary_length c = length (summary c)))
   \<and> (\<forall>c \<in> set (update_chunk n s entries).
         c \<in> set entries \<or> (summary c = s \<and> summary_length c = length s))
   \<and> ((\<forall>c \<in> set entries. summary_length c = length (summary c)) \<longrightarrow>
         (\<forall>c \<in> set (fst (resume_loop self e failed chs entries w)).
            summary_length c = length (summary c)))
   \<and> (\<forall>r w'. files w p = Some (Json existing)
          \<and> (\<forall>c \<in> set (chunks existing). summary_length c = length (summary c))
          \<and> resume_failed_processing self e w path p = (Inr r, w') \<longrightarrow>
         (\<forall>c \<in> set (chunks (fst r)). summary_length c = length (summary c)))"
proof (intro conjI allI impI)
  show "\<forall>c \<in> set (chunks (create_video_summary_json self e vinfo pairs)).
       summary_length c = length (summary c)"
    by (rule create_lengths)
next
  fix r w' assume "full_processing self e w path out = (Inr r, w')"
  then show "\<forall>c \<in> set (chunks (fst r)). summary_length c = length (summary c)"
    using full_processing_summary create_lengths by metis
next
  show "\<forall>c \<in> set (update_chunk n s entries).
         c \<in> set entries \<or> (summary c = s \<and> summary_length c = length s)"
    using update_chunk_set by blast
next
  assume "\<forall>c \<in> set entries. summary_length c = length (summary c)"
  then show "\<forall>c \<in> set (fst (resume_loop self e failed chs entries w)).
            summary_length c = length (summary c)"
    by (rule resume_loop_lengths)
next
  fix r w'
  assume a: "files w p = Some (Json existing)
          \<and> (\<forall>c \<in> set (chunks existing). summary_length c = length (summary c))
          \<and> resume_failed_processing self e w path p = (Inr r, w')"
  then consider "chunks (fst r) = chunks existing"
    | failed chs w1 where "chunks (fst r) = fst (resume_loop self e failed chs (chunks existing) w1)"
    using resume_failed_processing_chunks by blast
  then show "\<forall>c \<in> set (chunks (fst r)). summary_length c = length (summary c)"
  proof cases
    case 1
    then show ?thesis using a by simp
  next
    case 2
    then show ?thesis using a resume_loop_lengths [of "chunks existing"] by simp
  qed
qed


text \<open>
  The theorem at the summary with the five example texts, and at a resume loop that
  redoes its chunk 2.
\<close>

theorem summary_length_is_length_witness:
  "list_all (\<lambda>c. summary_length c = length (summary c)) (chunks (demo_existing demo_texts))
   \<and> list_all (\<lambda>c. summary_length c = length (summary c))
        (fst (resume_loop init (demo_env 150 (\<lambda>k. Inr ''A cat sleeps.'') ''y'') [2]
               [(demo_clip 30, make_chunk_info init 150 1)] (chunks (demo_existing demo_texts))
               empty_world))"
proof -
  have a: "\<forall>c \<in> set (chunks (demo_existing demo_texts)). summary_length c = length (summary c)"
    unfolding demo_existing_def by (rule summary_length_is_length [THEN conjunct1])
  then have "\<forall>c \<in> set (fst (resume_loop init (demo_env 150 (\<lambda>k. Inr ''A cat sleeps.'') ''y'') [2]
               [(demo_clip 30, make_chunk_info init 150 1)] (chunks (demo_existing demo_texts))
               empty_world)). summary_length c = length (summary c)"
    using summary_length_is_length
            [where entries = "chunks (demo_existing demo_texts)" and self = init
               and e = "demo_env 150 (\<lambda>k. Inr ''A cat sleeps.'') ''y''" and failed = "[2]"
               and chs = "[(demo_clip 30, make_chunk_info init 150 1)]" and w = empty_world]
    by blast
  with a show ?thesis by (simp add: list_all_iff)
qed

section \<open>Reusing an existing summary\<close>

lemma process_failed_chunks_eq: "process_failed_chunks cs [] = resume_failed_chunks cs []"
  by (simp add: resume_failed_chunks_acc process_failed_chunks_acc)

lemma check_existing_summary_file:
  "check_existing_summary w path = Some (existing, existing_path) \<Longrightarrow>
   existing_path = summary_filename path \<and> files w existing_path = Some (Json existing)"
  by (auto simp: check_existing_summary_def split: option.splits file_content.splits)

text \<open>
  Claim C4. When reprocessing is not forced, a summary is found for the video, none of
  its chunks is failed and the user accepts, \<^verbatim>\<open>process_video\<close> returns the summary found
  and its path and leaves the world as it was: no video is opened, no request is sent,
  nothing is written. A second such run therefore returns the same. The resume function
  returns the same way when it finds no failed chunk.
\<close>

theorem reuse_returns_existing:
  assumes "\<not> force_reprocess"
      and "check_existing_summary w path = Some (existing, existing_path)"
      and "process_failed_chunks (chunks existing) [] = []"
      and "accepts (user_input e)"
  shows "process_video self e w path output_path force_reprocess = (Inr (existing, existing_path), w)
       \<and> process_video self e (snd (process_video self e w path output_path force_reprocess))
            path output_path force_reprocess
          = process_video self e w path output_path force_reprocess
       \<and> resume_failed_processing self e w path existing_path = (Inr (existing, existing_path), w)"
proof -
  have 1: "process_video self e w path output_path force_reprocess = (Inr (existing, existing_path), w)"
    using assms by (simp add: process_video_def Let_def)
  have "resume_failed_chunks (chunks existing) [] = []"
    using assms(3) by (simp add: process_failed_chunks_eq)
  moreover have "files w existing_path = Some (Json existing)"
    using check_existing_summary_file [OF assms(2)] by blast
  ultimately have 2:
    "resume_failed_processing self e w path existing_path = (Inr (existing, existing_path), w)"
    by (simp add: resume_failed_processing_def Let_def)
  from 1 2 show ?thesis by simp
qed

lemma demo_clean_no_failed: "process_failed_chunks (chunks (demo_existing clean_texts)) [] = []"
  by code_simp

lemma demo_check:
  "check_existing_summary (world_with vs) ''video.mp4'' = Some (vs, ''video_summary.json'')"
  by (simp add: check_existing_summary_def world_with_def summary_filename_def basename_def
      splitext_root_def Let_def)

text \<open>
  The theorem at a world that holds a summary with five good chunks.
\<close>

theorem reuse_returns_existing_witness:
  "\<not> False
   \<and> check_existing_summary (world_with (demo_existing clean_texts)) ''video.mp4''
       = Some (demo_existing clean_texts, ''video_summary.json'')
   \<and> process_failed_chunks (chunks (demo_existing clean_texts)) [] = []
   \<and> accepts (user_input (demo_env 150 (\<lambda>k. Inr ''A cat sleeps.'') ''y''))
   \<and> process_video init (demo_env 150 (\<lambda>k. Inr ''A cat sleeps.'') ''y'')
        (world_with (demo_existing clean_texts)) ''video.mp4'' None False
       = (Inr (demo_existing clean_texts, ''video_summary.json''), world_with (demo_existing clean_texts))
   \<and> calls (world_with (demo_existing clean_texts)) = []
   \<and> opened (world_with (demo_existing clean_texts)) = []"
proof -
  have h: "accepts (user_input (demo_env 150 (\<lambda>k. Inr ''A cat sleeps.'') ''y''))"
    by (simp add: accepts_def demo_env_def)
  have n: "\<not> False" by simp
  show ?thesis
    using reuse_returns_existing [OF n demo_check demo_clean_no_failed h, of init None]
      demo_check demo_clean_no_failed h
    by (simp add: world_with_def empty_world_def)
qed

section \<open>The frame sampler\<close>

lemma extract_loop_Inl:
  "extract_loop chunk ts acc = Inl err \<Longrightarrow>
   \<exists>t \<in> set ts. t < clip_duration chunk \<and> get_frame chunk t = Inl err"
  by (induction ts arbitrary: acc) (auto split: if_splits sum.splits)

lemma extract_loop_Inr:
  "extract_loop chunk ts acc = Inr frames \<Longrightarrow>
   map Inr frames = map Inr acc @ map (get_frame chunk) (filter (\<lambda>t. t < clip_duration chunk) ts)"
  by (induction ts arbitrary: acc) (auto split: if_splits sum.splits)

lemma frame_times_in_range:
  "0 < d \<Longrightarrow> filter (\<lambda>t. t < d) (frame_times d) = frame_times d"
  by (simp add: frame_times_def)

text \<open>
  Claim C9, amended. The sampler asks the decoder only for the times of
  \<^const>\<open>frame_times\<close> that are before the end of the chunk and skips the others without
  an error: it fails only with the error of the decoder at such a time, and otherwise
  returns the frames of these times in order. For a chunk of positive duration no time
  is skipped; for a chunk of duration 0 or less the result is the empty sequence.
\<close>

theorem sampler_requests_in_range:
  "(extract_frames_and_audio chunk = Inl err \<longrightarrow>
      (\<exists>t \<in> set (frame_times (clip_duration chunk)).
          t < clip_duration chunk \<and> get_frame chunk t = Inl err))
   \<and> (extract_frames_and_audio chunk = Inr frames \<longrightarrow>
        map Inr frames
        = map (get_frame chunk) (filter (\<lambda>t. t < clip_duration chunk) (frame_times (clip_duration chunk))))
   \<and> (0 < clip_duration chunk \<longrightarrow>
        filter (\<lambda>t. t < clip_duration chunk) (frame_times (clip_duration chunk))
        = frame_times (clip_duration chunk))
   \<and> (clip_duration chunk \<le> 0 \<longrightarrow> extract_frames_and_audio chunk = Inr [])"
  using extract_loop_Inl [of chunk "frame_times (clip_duration chunk)" "[]" err]
        extract_loop_Inr [of chunk "frame_times (clip_duration chunk)" "[]" frames]
        frame_times_in_range [of "clip_duration chunk"]
  by (auto simp: extract_frames_and_audio_def frame_times_def)

text \<open>
  The theorem at clips of 0 and of 5 seconds.
\<close>

theorem sampler_requests_in_range_witness:
  "clip_duration (demo_clip 0) \<le> 0 \<and> extract_frames_and_audio (demo_clip 0) = Inr []
   \<and> 0 < clip_duration (demo_clip 5)
   \<and> filter (\<lambda>t. t < clip_duration (demo_clip 5)) (frame_times (clip_duration (demo_clip 5)))
      = [0, 5 / 2, 49 / 10]"
  using sampler_requests_in_range [of "demo_clip 0"] sampler_requests_in_range [of "demo_clip 5"]
  by (simp add: demo_clip_def frame_times_def)

text \<open>
  Claim C9 as stated fails: for a chunk of duration 0 the one time asked for, 0, is not
  before the end, and the sampler returns the empty sequence, not an error.
\<close>

theorem sampler_skips_without_error:
  "frame_times (clip_duration (demo_clip 0)) = [0]
   \<and> \<not> (0 < clip_duration (demo_clip 0))
   \<and> extract_frames_and_audio (demo_clip 0) = Inr []"
  by (simp add: extract_frames_and_audio_def frame_times_def demo_clip_def)

section \<open>A resume run\<close>

lemma summarize_chunk_world:
  "summarize_chunk self e w chunk ci = (r, w') \<Longrightarrow>
   summarized w' = summarized w @ [chunk_number ci] \<and> files w' = files w \<and> sleeps w' = sleeps w
   \<and> opened w' = opened w \<and> dirs w' = dirs w"
  by (auto simp: summarize_chunk_def Let_def split: sum.splits)

lemma update_chunk_length [simp]: "length (update_chunk n s entries) = length entries"
  by (induction entries) simp_all












section \<open>Failures of the model and the retry\<close>

text \<open>
  \<^verbatim>\<open>summarize_chunk\<close> returns a text whatever happens (\<open>summarize_chunk_returns\<close>), so
  the handlers of its callers never run: the loop of a full run enters
  \<^verbatim>\<open>summarize_chunk\<close> once for each chunk and sleeps only the pacing delays, never 60
  seconds.
\<close>

lemma summarize_all_single_attempt:
  "summarize_all self e i chs acc w = (acc', w') \<Longrightarrow>
     summarized w' = summarized w @ map (\<lambda>c. chunk_number (snd c)) chs
   \<and> sleeps w' = sleeps w @ map pacing [i ..< i + length chs]
   \<and> map fst acc' = map fst acc @ map snd chs"
proof (induction chs arbitrary: i acc w)
  case Nil
  then show ?case by simp
next
  case (Cons x chs)
  obtain chunk ci where x: "x = (chunk, ci)" by (cases x)
  obtain s w1 where s: "summarize_chunk self e w chunk ci = (Inr s, w1)"
    using summarize_chunk_returns by blast
  have w1: "summarized w1 = summarized w @ [chunk_number ci]" "sleeps w1 = sleeps w"
    using summarize_chunk_world [OF s] by simp_all
  have "summarize_all self e (i + 1) chs (acc @ [(ci, s)]) (sleep (pacing i) w1) = (acc', w')"
    using Cons.prems by (simp add: x s)
  note ih = Cons.IH [OF this]
  have u: "[i ..< i + length (x # chs)] = i # [i + 1 ..< i + 1 + length chs]"
    using upt_conv_Cons [of i "Suc (i + length chs)"] by simp
  show ?case
    unfolding u using ih w1 by (simp add: x sleep_def)
qed

lemma pacing_short: "pacing i \<noteq> 60"
  by (simp add: pacing_def)

text \<open>
  Claim C1 fails on the code. The model raises a rate-limit error at the first request
  and would answer the second. A full run of a video of 20 seconds, which is one chunk,
  stores the failure text for it, sends one request and sleeps 2 seconds once: it does
  not wait 60 seconds and does not retry.
\<close>

theorem rate_limit_is_not_retried:
  "generate_content
     (demo_env 20 (\<lambda>k. if k = 0 then Inl (Exception ''429 Resource exhausted'') else Inr ''A cat sleeps.'') ''y'')
     1 (make_content init (make_chunk_info init 20 0) []) = Inr ''A cat sleeps.''
   \<and> (case process_video init
              (demo_env 20 (\<lambda>k. if k = 0 then Inl (Exception ''429 Resource exhausted'') else Inr ''A cat sleeps.'') ''y'')
              empty_world ''video.mp4'' None False of
        (r, w) \<Rightarrow> (case r of Inl err \<Rightarrow> [] | Inr (vs, out) \<Rightarrow> map summary (chunks vs),
                    summarized w, calls w, sleeps w))
       = ([''Error processing chunk: 429 Resource exhausted''], [1], [1], [2])"
  by (rule conjI, simp add: demo_env_def) code_simp

text \<open>
  Claim C8 fails on the code. When the model raises, with a rate-limit error or with any
  other, \<^verbatim>\<open>summarize_chunk\<close> returns the failure to its caller as an ordinary text, the
  marker followed by the message of the error.
\<close>

theorem failure_is_returned_as_text:
  "(case summarize_chunk init
           (demo_env 20 (\<lambda>k. Inl (Exception ''429 Resource exhausted'')) ''y'')
           empty_world (demo_clip 20) (make_chunk_info init 20 0) of
      (r, w) \<Rightarrow> (r, calls w))
     = (Inr ''Error processing chunk: 429 Resource exhausted'', [1])
   \<and> (case summarize_chunk init
           (demo_env 20 (\<lambda>k. Inl (Exception ''503 Service unavailable'')) ''y'')
           empty_world (demo_clip 20) (make_chunk_info init 20 0) of
      (r, w) \<Rightarrow> (r, calls w))
     = (Inr ''Error processing chunk: 503 Service unavailable'', [1])"
  by code_simp

section \<open>Looking for the saved summary\<close>

text \<open>
  \<^verbatim>\<open>save_summary_json\<close> writes under the folder \<^verbatim>\<open>output\<close>;
  \<^verbatim>\<open>check_existing_summary\<close> looks for the bare file name in the working directory. So
  what is saved under the default name for a video never changes what the check finds
  for it.
\<close>

lemma basename_no_slash: "CHR ''/'' \<notin> set (basename p)"
  by (auto simp: basename_def dest: set_takeWhileD)

lemma splitext_root_chars: "set (splitext_root p) \<subseteq> set p"
  by (auto simp: splitext_root_def Let_def dest: in_set_takeD)

lemma summary_filename_no_root: "\<not> prefix ''/'' (summary_filename path)"
proof
  assume "prefix ''/'' (summary_filename path)"
  then obtain r where r: "summary_filename path = CHR ''/'' # r"
    by (auto simp: prefix_def)
  have "CHR ''/'' \<notin> set (splitext_root (basename path))"
    using splitext_root_chars basename_no_slash by blast
  then show False
    using r by (cases "splitext_root (basename path)") (auto simp: summary_filename_def)
qed

lemma default_output_path_eq:
  "video_name vs = basename path \<Longrightarrow> default_output_path vs = ''output/'' @ summary_filename path"
  using summary_filename_no_root [of path]
  by (simp add: default_output_path_def path_join_def summary_filename_def suffix_def)

lemma saved_summary_stays_unseen:
  assumes "video_name vs = basename path"
  shows "check_existing_summary (snd (save_summary_json w vs None)) path = check_existing_summary w path"
proof -
  have "length (default_output_path vs) \<noteq> length (summary_filename path)"
    by (simp add: default_output_path_eq [OF assms])
  then have "summary_filename path \<noteq> default_output_path vs" by auto
  then show ?thesis
    by (simp add: check_existing_summary_def save_summary_json_def Let_def)
qed

text \<open>
  Claim C2 fails on the code. A full run of \<^verbatim>\<open>video.mp4\<close> in an empty world saves the
  summary as \<^verbatim>\<open>output/video_summary.json\<close>; the check then looks for
  \<^verbatim>\<open>video_summary.json\<close> and finds nothing.
\<close>

theorem saved_summary_is_not_found:
  "(case process_video init (demo_env 20 (\<lambda>k. Inr ''A cat sleeps.'') ''y'') empty_world
           ''video.mp4'' None False of
      (r, w) \<Rightarrow> (case r of Inl err \<Rightarrow> [] | Inr (vs, out) \<Rightarrow> out,
                  summary_filename ''video.mp4'',
                  map_option snd (check_existing_summary w ''video.mp4''),
                  map_option (\<lambda>f. case f of Unparseable \<Rightarrow> [] | Json vs \<Rightarrow> video_name vs)
                    (files w ''output/video_summary.json'')))
   = (''output/video_summary.json'', ''video_summary.json'', None, Some ''video.mp4'')"
  by code_simp

end
